theory Spec2Isabelle
  imports Complex_Main
begin

section \<open>Numbers and faults\<close>

text \<open>
  JavaScript numbers are modelled by the exact reals: there is no rounding and no
  overflow, and there is one zero, which divides like the positive zero. What the
  program does with numbers that are not finite is modelled in two ways.

  In the decision (\<open>predict\<close> and what it calls) Infinity and NaN are values of their own,
  \<open>jsnum\<close>, with the rules of the arithmetic written out; \<open>undefined\<close> is NaN there, since
  arithmetic on it gives NaN and every comparison with it is false.

  In training and in the physics engine three things can leave the reals, and each is an
  outcome of its own:
  \<^item> \<open>TypeError\<close>: reading a property of \<open>undefined\<close> (a missing row of a weight
    matrix, a missing entry of the activation list); JavaScript throws.
  \<^item> \<open>DivisionByZero\<close>: a division whose divisor is zero. JavaScript does not throw;
    it carries on with Infinity or NaN.
  \<^item> \<open>NotANumber\<close>: arithmetic on \<open>undefined\<close> (a missing bias or a missing entry of a
    row). JavaScript does not throw; it carries on with NaN.
  For the last two the run goes on outside the finite numbers, where this part of the
  model does not follow it: it ends the run with the fault. (A training sample keeps
  the fault of its features until training reads them, since the buffer does not depend
  on them.) There every division by a variable goes through \<open>js_div\<close>, with two
  exceptions: the constructor of \<open>PhysicsBody\<close> divides by the mass only after testing
  that it is positive, and the divisor of \<open>softmax\<close> is shown to be positive below.
\<close>

datatype fault = TypeError | DivisionByZero | NotANumber

definition js_div :: "real \<Rightarrow> real \<Rightarrow> fault + real" where
  "js_div a b = (if b = 0 then Inl DivisionByZero else Inr (a / b))"

subsection \<open>Numbers with Infinity and NaN\<close>

datatype jsnum = Num real | PlusInfinity | MinusInfinity | NaN








text \<open>
  Division: a number over zero is Infinity with the sign of the number, zero over zero
  is NaN, a finite number over an infinite one is zero, Infinity over Infinity is NaN.
\<close>

fun js_divide :: "jsnum \<Rightarrow> jsnum \<Rightarrow> jsnum" where
  "js_divide NaN _ = NaN"
| "js_divide _ NaN = NaN"
| "js_divide (Num a) (Num b) =
     (if b \<noteq> 0 then Num (a / b)
      else if a = 0 then NaN else if 0 < a then PlusInfinity else MinusInfinity)"
| "js_divide (Num a) _ = Num 0"
| "js_divide PlusInfinity (Num b) = (if 0 \<le> b then PlusInfinity else MinusInfinity)"
| "js_divide MinusInfinity (Num b) = (if 0 \<le> b then MinusInfinity else PlusInfinity)"
| "js_divide _ _ = NaN"



section \<open>The neural controller (src/js/ai.js)\<close>

record layer =
  weights :: "real list list"
  biases :: "real list"
  activation :: string

record network =
  layers :: "layer list"

text \<open>
  A training sample: the features as \<open>normalizeInputs\<close> gave them, and the one-hot array
  of the action, where \<open>None\<close> is an empty slot of the array.
\<close>

record sample =
  inputs :: "fault + real list"
  action :: "real option list"

record AIController =
  network :: network
  learningRate :: real
  trainingData :: "sample list"
  maxTrainingData :: nat
  adaptiveStrategy :: string

text \<open>The game objects as \<open>ai.js\<close> reads them.\<close>

record ball =
  ball_x :: real
  ball_y :: real
  speedX :: real
  speedY :: real

record paddle =
  paddle_x :: real
  paddle_y :: real
  paddle_height :: real

definition relu :: "real \<Rightarrow> real" where
  "relu v = max 0 v"

text \<open>
  \<open>softmax\<close>: the largest value is subtracted, the exponentials are summed from 0 by
  \<open>reduce\<close>, each exponential is divided by the sum. On the empty array both \<open>map\<close>s
  return the empty array.
\<close>

definition softmax :: "real list \<Rightarrow> real list" where
  "softmax values =
     (case values of
        [] \<Rightarrow> []
      | v # vs \<Rightarrow>
          (let mx = fold max vs v;
               exps = map (\<lambda>u. exp (u - mx)) values;
               sum = foldl (+) 0 exps
           in map (\<lambda>e. e / sum) exps))"

text \<open>
  \<open>matrixMultiply\<close>. \<open>weights[0].length\<close> throws on an empty matrix. With at least one
  column, \<open>weights[i][j]\<close> throws as soon as the input is longer than the matrix has
  rows. A missing bias or a short row gives NaN sums. Otherwise column \<open>j\<close> is the bias
  plus the products, added in the order of the loop.
\<close>

definition matrixMultiply :: "real list \<Rightarrow> real list list \<Rightarrow> real list \<Rightarrow> fault + real list" where
  "matrixMultiply input ws bs =
     (case ws of
        [] \<Rightarrow> Inl TypeError
      | w0 # _ \<Rightarrow>
          if w0 = [] then Inr []
          else if length ws < length input then Inl TypeError
          else if length bs < length w0
                  \<or> list_ex (\<lambda>row. length row < length w0) (take (length input) ws)
               then Inl NotANumber
          else Inr (map (\<lambda>j. foldl (\<lambda>sum i. sum + input ! i * ws ! i ! j) (bs ! j) [0..<length input])
                        [0..<length w0]))"

text \<open>
  The loop of \<open>forwardPass\<close>: a layer whose activation is neither \<open>relu\<close> nor \<open>softmax\<close>
  leaves \<open>activation\<close> as it was and pushes it again.
\<close>

fun forwardLayers :: "layer list \<Rightarrow> real list \<Rightarrow> real list list \<Rightarrow> fault + (real list \<times> real list list)" where
  "forwardLayers [] act acts = Inr (act, acts)"
| "forwardLayers (l # ls) act acts =
     (case matrixMultiply act (weights l) (biases l) of
        Inl e \<Rightarrow> Inl e
      | Inr z \<Rightarrow>
          (let act' = (if activation l = ''relu'' then map relu z
                       else if activation l = ''softmax'' then softmax z
                       else act)
           in forwardLayers ls act' (acts @ [act'])))"

definition forwardPass :: "network \<Rightarrow> real list \<Rightarrow> fault + (real list \<times> real list list)" where
  "forwardPass net ins = forwardLayers (layers net) ins [ins]"

definition normalizeInputs :: "ball \<Rightarrow> paddle \<Rightarrow> real \<Rightarrow> real \<Rightarrow> fault + real list" where
  "normalizeInputs b p canvasWidth canvasHeight =
     (case js_div (ball_y b) canvasHeight of Inl e \<Rightarrow> Inl e | Inr f0 \<Rightarrow>
     (case js_div (speedY b) 10 of Inl e \<Rightarrow> Inl e | Inr f1 \<Rightarrow>
     (case js_div (ball_x b - paddle_x p) canvasWidth of Inl e \<Rightarrow> Inl e | Inr f2 \<Rightarrow>
     (case js_div (paddle_y p) canvasHeight of Inl e \<Rightarrow> Inl e | Inr f3 \<Rightarrow>
      Inr [f0, f1, f2, f3]))))"

subsection \<open>The forward pass on numbers that may be Infinity or NaN\<close>

text \<open>
  \<open>predict\<close> divides by the canvas dimensions without a test, so the features it feeds
  to the network may be Infinity or NaN. These are \<open>normalizeInputs\<close>, \<open>relu\<close>,
  \<open>softmax\<close>, \<open>matrixMultiply\<close> and \<open>forwardPass\<close> once more, on \<open>jsnum\<close>. The weights
  and biases stay real. A missing bias or a missing entry of a row is NaN; only a
  missing row throws. \<open>Math.max\<close> of no arguments is -Infinity.
\<close>

definition normalizeInputs_js :: "ball \<Rightarrow> paddle \<Rightarrow> real \<Rightarrow> real \<Rightarrow> jsnum list" where
  "normalizeInputs_js b p canvasWidth canvasHeight =
     [js_divide (Num (ball_y b)) (Num canvasHeight),
      Num (speedY b / 10),
      js_divide (Num (ball_x b - paddle_x p)) (Num canvasWidth),
      js_divide (Num (paddle_y p)) (Num canvasHeight)]"






subsection \<open>The trajectory predictor\<close>





subsection \<open>The training buffer and the weight update\<close>

text \<open>
  \<open>recordDecision\<close>. \<open>decisionSample\<close> is the object it pushes. The one-hot array has three
  zeros. \<open>actionOneHot[action + 1] = 1\<close> sets one of them when \<open>action + 1\<close> is 0, 1 or 2;
  for a larger index (below \<open>2^32 - 1\<close>, the largest an array takes) the array grows up
  to that index, with empty slots in between; any other index sets a property that is not
  an entry, and the array stays as it is. \<open>push\<close> appends, \<open>shift\<close> drops the first.
\<close>

definition decisionSample :: "ball \<Rightarrow> paddle \<Rightarrow> real \<Rightarrow> real \<Rightarrow> int \<Rightarrow> sample" where
  "decisionSample b p canvasWidth canvasHeight a =
     (let ins = normalizeInputs b p canvasWidth canvasHeight;
          actionOneHot =
            (if 0 \<le> a + 1 \<and> a + 1 < 3 then [Some 0, Some 0, Some 0][nat (a + 1) := Some 1]
             else if 3 \<le> a + 1 \<and> a + 1 < 4294967295
                  then [Some 0, Some 0, Some 0] @ replicate (nat (a + 1) - 3) None @ [Some 1]
             else [Some 0, Some 0, Some 0])
      in \<lparr>inputs = ins, action = actionOneHot\<rparr>)"

definition recordDecision :: "AIController \<Rightarrow> ball \<Rightarrow> paddle \<Rightarrow> real \<Rightarrow> real \<Rightarrow> int \<Rightarrow> AIController" where
  "recordDecision c b p canvasWidth canvasHeight a =
     (let pushed = trainingData c @ [decisionSample b p canvasWidth canvasHeight a]
      in c\<lparr>trainingData := (if length pushed > maxTrainingData c then tl pushed else pushed)\<rparr>)"

text \<open>A run of \<open>recordDecision\<close> calls, one after the other, each with its arguments.\<close>

type_synonym decision = "ball \<times> paddle \<times> real \<times> real \<times> int"

fun recordAll :: "AIController \<Rightarrow> decision list \<Rightarrow> AIController" where
  "recordAll c [] = c"
| "recordAll c ((b, p, canvasWidth, canvasHeight, a) # ds) =
     recordAll (recordDecision c b p canvasWidth canvasHeight a) ds"

text \<open>
  One layer of \<open>updateWeights\<close>: the loop over \<open>j\<close> with the loop over \<open>i\<close> inside, on the
  biases, the weights and \<open>nextError\<close>. \<open>weights[i]\<close> missing throws; a missing bias or a
  short row makes the sum NaN. The error sent back reads the weight just updated.
\<close>

definition updateLayer :: "real \<Rightarrow> nat \<Rightarrow> layer \<Rightarrow> real list \<Rightarrow> real list \<Rightarrow> fault + (layer \<times> real list)" where
  "updateLayer lr l lay prevActivation err =
     (if err \<noteq> [] \<and> length (weights lay) < length prevActivation then Inl TypeError
      else if length (biases lay) < length err
              \<or> list_ex (\<lambda>row. length row < length err) (take (length prevActivation) (weights lay))
           then Inl NotANumber
      else
        (let (bs, ws, nextError) =
               fold (\<lambda>j (bs, ws, ne).
                       fold (\<lambda>i (bs, ws, ne).
                               (let gradient = lr * err ! j * prevActivation ! i;
                                    ws' = ws[i := (ws ! i)[j := ws ! i ! j + gradient]]
                                in (bs, ws', if l > 0 then ne[i := ne ! i + err ! j * ws' ! i ! j] else ne)))
                            [0..<length prevActivation]
                            (bs[j := bs ! j + lr * err ! j], ws, ne))
                    [0..<length err]
                    (biases lay, weights lay, replicate (length prevActivation) 0);
             nextError' =
               (if l > 0 \<and> activation lay = ''relu''
                then map (\<lambda>i. if prevActivation ! i > 0 then nextError ! i else 0) [0..<length nextError]
                else nextError)
         in Inr (lay\<lparr>weights := ws, biases := bs\<rparr>, nextError')))"

text \<open>
  The loop over the layers, last to first: \<open>backprop lr acts n ls err\<close> has the layers
  below index \<open>n\<close> still to do. \<open>activations[l]\<close> missing throws at \<open>.length\<close>.
\<close>

fun backprop :: "real \<Rightarrow> real list list \<Rightarrow> nat \<Rightarrow> layer list \<Rightarrow> real list \<Rightarrow> fault + layer list" where
  "backprop lr acts 0 ls err = Inr ls"
| "backprop lr acts (Suc l) ls err =
     (if length acts \<le> l then Inl TypeError
      else case updateLayer lr l (ls ! l) (acts ! l) err of
             Inl e \<Rightarrow> Inl e
           | Inr (lay', nextError) \<Rightarrow> backprop lr acts l (ls[l := lay']) nextError)"

definition updateWeights :: "network \<Rightarrow> real \<Rightarrow> real list list \<Rightarrow> real list \<Rightarrow> fault + network" where
  "updateWeights net lr acts finalError =
     (case backprop lr acts (length (layers net)) (layers net) finalError of
        Inl e \<Rightarrow> Inl e
      | Inr ls \<Rightarrow> Inr (net\<lparr>layers := ls\<rparr>))"

text \<open>
  The body of the loop of \<open>trainOnRecentData\<close> for one sample. An entry of \<open>data.action\<close>
  or of \<open>output\<close> that is missing, or an empty slot, makes the error NaN.
\<close>

definition trainSample :: "real \<Rightarrow> real \<Rightarrow> network \<Rightarrow> sample \<Rightarrow> fault + network" where
  "trainSample lr rewardFactor net d =
     (case inputs d of Inl e \<Rightarrow> Inl e | Inr ins \<Rightarrow>
     (case forwardPass net ins of Inl e \<Rightarrow> Inl e | Inr (output, acts) \<Rightarrow>
        if length output < 3 \<or> length (action d) < 3
           \<or> list_ex (\<lambda>v. v = None) (take 3 (action d))
        then Inl NotANumber
        else updateWeights net lr acts
               (map (\<lambda>i. (the (action d ! i) - output ! i) * rewardFactor) [0..<3])))"

fun trainAll :: "real \<Rightarrow> real \<Rightarrow> network \<Rightarrow> sample list \<Rightarrow> fault + network" where
  "trainAll lr rewardFactor net [] = Inr net"
| "trainAll lr rewardFactor net (d # ds) =
     (case trainSample lr rewardFactor net d of
        Inl e \<Rightarrow> Inl e
      | Inr net' \<Rightarrow> trainAll lr rewardFactor net' ds)"

definition trainOnRecentData :: "AIController \<Rightarrow> real \<Rightarrow> fault + AIController" where
  "trainOnRecentData c rewardFactor =
     (if length (trainingData c) < 10 then Inr c
      else
        (let recentData = drop (length (trainingData c) - 30) (trainingData c)
         in case trainAll (learningRate c) rewardFactor (network c) recentData of
              Inl e \<Rightarrow> Inl e
            | Inr net' \<Rightarrow> Inr (c\<lparr>network := net'\<rparr>)))"

definition reward :: "AIController \<Rightarrow> fault + AIController" where
  "reward c = (if length (trainingData c) < 20 then Inr c else trainOnRecentData c 1.0)"

definition punish :: "AIController \<Rightarrow> fault + AIController" where
  "punish c = (if length (trainingData c) < 20 then Inr c else trainOnRecentData c (- 0.5))"

text \<open>
  The shape \<open>createNetwork\<close> builds: 4 inputs, 16 and 8 rectified-linear units, 3
  softmax units. \<open>updateWeights\<close> changes entries only, so the shape stays.
\<close>

definition layer_shape :: "nat \<Rightarrow> nat \<Rightarrow> string \<Rightarrow> layer \<Rightarrow> bool" where
  "layer_shape rows cols a l \<longleftrightarrow>
     length (weights l) = rows \<and> list_all (\<lambda>row. length row = cols) (weights l)
     \<and> length (biases l) = cols \<and> activation l = a"

definition created_shape :: "network \<Rightarrow> bool" where
  "created_shape net \<longleftrightarrow>
     (case layers net of
        [l0, l1, l2] \<Rightarrow>
          layer_shape 4 16 ''relu'' l0 \<and> layer_shape 16 8 ''relu'' l1 \<and> layer_shape 8 3 ''softmax'' l2
      | _ \<Rightarrow> False)"

text \<open>
  The constructor, with the network that \<open>createNetwork\<close> drew at random as a parameter.
\<close>

definition new_AIController :: "network \<Rightarrow> AIController" where
  "new_AIController net =
     \<lparr>network = net, learningRate = 0.01, trainingData = [], maxTrainingData = 200,
      adaptiveStrategy = ''balanced''\<rparr>"

text \<open>
  A network of the created shape, used for the concrete runs below: every weight and bias
  is zero, except that each row of the last matrix is \<open>[0, 0, 1]\<close>.
\<close>

definition example_network :: network where
  "example_network =
     \<lparr>layers =
        [\<lparr>weights = replicate 4 (replicate 16 0), biases = replicate 16 0, activation = ''relu''\<rparr>,
         \<lparr>weights = replicate 16 (replicate 8 0), biases = replicate 8 0, activation = ''relu''\<rparr>,
         \<lparr>weights = replicate 8 [0, 0, 1], biases = [0, 0, 0], activation = ''softmax''\<rparr>]\<rparr>"

text \<open>A ball and the AI paddle on an 800 by 600 canvas, for the concrete runs below.\<close>

definition example_ball :: ball where
  "example_ball = \<lparr>ball_x = 400, ball_y = 300, speedX = 5, speedY = 1\<rparr>"

definition example_paddle :: paddle where
  "example_paddle = \<lparr>paddle_x = 770, paddle_y = 260, paddle_height = 80\<rparr>"

section \<open>The physics engine (src/audio-system.js)\<close>

subsection \<open>Vector2D and MathUtil\<close>

datatype Vector2D = Vector2D (vec_x: real) (vec_y: real)

definition add_v :: "Vector2D \<Rightarrow> Vector2D \<Rightarrow> Vector2D" where
  "add_v u v = Vector2D (vec_x u + vec_x v) (vec_y u + vec_y v)"

definition subtract_v :: "Vector2D \<Rightarrow> Vector2D \<Rightarrow> Vector2D" where
  "subtract_v u v = Vector2D (vec_x u - vec_x v) (vec_y u - vec_y v)"

definition multiply_v :: "Vector2D \<Rightarrow> real \<Rightarrow> Vector2D" where
  "multiply_v u scalar = Vector2D (vec_x u * scalar) (vec_y u * scalar)"

text \<open>\<open>divide\<close> tests its divisor first; the two divisions come after the test.\<close>

definition divide_v :: "Vector2D \<Rightarrow> real \<Rightarrow> fault + Vector2D" where
  "divide_v u scalar =
     (if scalar = 0 then Inr (Vector2D 0 0)
      else (case js_div (vec_x u) scalar of Inl e \<Rightarrow> Inl e | Inr qx \<Rightarrow>
           (case js_div (vec_y u) scalar of Inl e \<Rightarrow> Inl e | Inr qy \<Rightarrow>
            Inr (Vector2D qx qy))))"

definition dot_v :: "Vector2D \<Rightarrow> Vector2D \<Rightarrow> real" where
  "dot_v u v = vec_x u * vec_x v + vec_y u * vec_y v"

definition magnitude :: "Vector2D \<Rightarrow> real" where
  "magnitude u = sqrt (vec_x u * vec_x u + vec_y u * vec_y u)"

text \<open>
  \<open>normalize\<close>. Over the exact reals a vector that is not zero is scaled to length exactly
  1; in double arithmetic the square root and the two divisions are rounded, and the
  length is 1 up to rounding only.
\<close>

definition normalize_v :: "Vector2D \<Rightarrow> fault + Vector2D" where
  "normalize_v u = (let mag = magnitude u in if mag = 0 then Inr (Vector2D 0 0) else divide_v u mag)"

definition distanceTo :: "Vector2D \<Rightarrow> Vector2D \<Rightarrow> real" where
  "distanceTo u v = sqrt ((vec_x u - vec_x v)\<^sup>2 + (vec_y u - vec_y v)\<^sup>2)"

definition clamp :: "real \<Rightarrow> real \<Rightarrow> real \<Rightarrow> real" where
  "clamp val mn mx = max mn (min mx val)"

subsection \<open>GAME_CONFIG.physics\<close>

text \<open>The two values the constructor of \<open>PhysicsBody\<close> reads.\<close>

definition config_friction :: real where "config_friction = 0.98"
definition elasticity :: real where "elasticity = 1.0"

subsection \<open>PhysicsBody\<close>

text \<open>The fields of \<open>PhysicsBody\<close> (\<open>bounds\<close>, which none of the functions below reads, is left out).\<close>

record PhysicsBody =
  position :: Vector2D
  velocity :: Vector2D
  acceleration :: Vector2D
  force :: Vector2D
  mass :: real
  inverseMass :: real
  restitution :: real
  friction :: real
  angularVelocity :: real
  angularAcceleration :: real
  torque :: real
  rotation :: real
  momentOfInertia :: real
  isStatic :: bool
  affectedByGravity :: bool
  affectedByDrag :: bool

text \<open>The constructor: \<open>1 / mass\<close> is computed for a positive mass only.\<close>

definition new_PhysicsBody :: "real \<Rightarrow> real \<Rightarrow> real \<Rightarrow> PhysicsBody" where
  "new_PhysicsBody px py m =
     \<lparr>position = Vector2D px py, velocity = Vector2D 0 0, acceleration = Vector2D 0 0,
      force = Vector2D 0 0, mass = m, inverseMass = (if m > 0 then 1 / m else 0),
      restitution = elasticity, friction = config_friction,
      angularVelocity = 0, angularAcceleration = 0, torque = 0, rotation = 0,
      momentOfInertia = m * 10,
      isStatic = False, affectedByGravity = False, affectedByDrag = True\<rparr>"

subsection \<open>CollisionSystem\<close>

text \<open>The ball entity adds a radius to the body; a rectangle is what \<open>getBounds\<close> gives.\<close>

record Ball_body = PhysicsBody +
  radius :: real

record rect =
  rect_x :: real
  rect_y :: real
  width :: real
  height :: real

text \<open>What \<open>resolveCircleRect\<close> returns when it resolves.\<close>

record collision =
  c_normal :: Vector2D
  c_impulse :: Vector2D
  c_point :: Vector2D
  c_velocity :: Vector2D

text \<open>
  The first lines of \<open>resolveCircleRect\<close>: the closest point of the rectangle, and the
  normal from it to the centre of the ball, with \<open>normal.x = 1\<close> when its length is zero.
\<close>

definition closestPoint :: "Ball_body \<Rightarrow> rect \<Rightarrow> Vector2D" where
  "closestPoint ball r =
     Vector2D (clamp (vec_x (position ball)) (rect_x r) (rect_x r + width r))
              (clamp (vec_y (position ball)) (rect_y r) (rect_y r + height r))"

definition contactNormal :: "Ball_body \<Rightarrow> rect \<Rightarrow> fault + Vector2D" where
  "contactNormal ball r =
     (case normalize_v (Vector2D (vec_x (position ball) - vec_x (closestPoint ball r))
                                 (vec_y (position ball) - vec_y (closestPoint ball r))) of
        Inl e \<Rightarrow> Inl e
      | Inr normal \<Rightarrow>
          if magnitude normal = 0 then Inr (Vector2D 1 (vec_y normal)) else Inr normal)"

text \<open>
  \<open>resolveCircleRect\<close> returns the ball as it leaves it, and the collision record or
  nothing (\<open>undefined\<close>) when it returns early.
\<close>

definition resolveCircleRect :: "Ball_body \<Rightarrow> rect \<Rightarrow> Vector2D \<Rightarrow> fault + (Ball_body \<times> collision option)" where
  "resolveCircleRect ball r rectVel =
     (case contactNormal ball r of Inl e \<Rightarrow> Inl e | Inr normal \<Rightarrow>
       (let relVel = subtract_v (velocity ball) rectVel;
            velAlongNormal = dot_v relVel normal
        in if velAlongNormal > 0 then Inr (ball, None)
           else
             (let e = restitution ball;
                  j = - (1 + e) * velAlongNormal;
                  impulse = multiply_v normal j;
                  offsetY = vec_y (position ball) - (rect_y r + height r / 2);
                  separation = radius ball - magnitude normal
              in Inr (ball\<lparr>velocity := add_v (velocity ball) impulse,
                           angularVelocity := angularVelocity ball + offsetY * 0.01,
                           position := add_v (position ball) (multiply_v normal separation)\<rparr>,
                      Some \<lparr>c_normal = normal, c_impulse = impulse,
                            c_point = closestPoint ball r, c_velocity = relVel\<rparr>))))"

text \<open>
  \<open>resolveCircleCircle\<close> returns nothing; the model returns the two balls as it leaves
  them. The impulse is divided by the sum of the inverse masses.
\<close>

definition resolveCircleCircle :: "Ball_body \<Rightarrow> Ball_body \<Rightarrow> fault + (Ball_body \<times> Ball_body)" where
  "resolveCircleCircle c1 c2 =
     (case normalize_v (subtract_v (position c1) (position c2)) of Inl e \<Rightarrow> Inl e | Inr normal \<Rightarrow>
       (let relVel = subtract_v (velocity c1) (velocity c2);
            velAlongNormal = dot_v relVel normal
        in if velAlongNormal > 0 then Inr (c1, c2)
           else
             (let e = min (restitution c1) (restitution c2);
                  j = - (1 + e) * velAlongNormal
              in case js_div j (inverseMass c1 + inverseMass c2) of Inl e \<Rightarrow> Inl e | Inr q \<Rightarrow>
                 (let impulse = multiply_v normal q;
                      overlap = (radius c1 + radius c2) - distanceTo (position c1) (position c2);
                      separation = multiply_v normal (overlap / 2)
                  in Inr (c1\<lparr>velocity := add_v (velocity c1) (multiply_v impulse (inverseMass c1)),
                               position := add_v (position c1) separation\<rparr>,
                          c2\<lparr>velocity := subtract_v (velocity c2) (multiply_v impulse (inverseMass c2)),
                               position := subtract_v (position c2) separation\<rparr>)))))"

text \<open>The ball entity as its constructor makes it: a body of mass 1 with the radius of the configuration.\<close>

definition new_Ball :: "real \<Rightarrow> real \<Rightarrow> Ball_body" where
  "new_Ball px py = PhysicsBody.extend (new_PhysicsBody px py 1) \<lparr>radius = 8\<rparr>"

text \<open>
  Rectangles for the concrete runs below: the bounds of a paddle, and a wall whose face is
  the line \<open>y = 0\<close>, once with the ball above it and once with the ball below it (\<open>y\<close>
  grows downwards on the canvas).
\<close>

definition paddle_rect :: rect where
  "paddle_rect = \<lparr>rect_x = 20, rect_y = 260, width = 10, height = 80\<rparr>"



section \<open>Properties of the neural controller\<close>

subsection \<open>The forward pass\<close>





lemma softmax_length: "length (softmax vs) = length vs"
  by (simp add: softmax_def Let_def split: list.splits)



lemma matrixMultiply_shape:
  assumes "layer_shape rows cols a l" "0 < rows" "0 < cols" "length input \<le> rows"
  shows "\<exists>z. matrixMultiply input (weights l) (biases l) = Inr z \<and> length z = cols"
proof -
  from assms obtain w0 ws' where ws: "weights l = w0 # ws'"
    by (cases "weights l") (auto simp: layer_shape_def)
  have rowlen: "\<forall>row\<in>set (weights l). length row = cols"
    using assms(1) by (simp add: layer_shape_def list_all_iff)
  then have w0: "length w0 = cols" using ws by simp
  have "\<not> list_ex (\<lambda>row. length row < length w0) (take (length input) (weights l))"
    using rowlen w0 by (auto simp: list_ex_iff dest: in_set_takeD)
  moreover have "length (weights l) = rows" "length (biases l) = cols"
    using assms(1) by (simp_all add: layer_shape_def)
  ultimately show ?thesis
    using assms(2-4) w0 ws by (auto simp: matrixMultiply_def)
qed

text \<open>
  On a network of the created shape an input of at most four entries goes through all
  three layers.
\<close>

lemma forwardPass_created:
  assumes "created_shape net" "length ins \<le> 4"
  shows "\<exists>z0 z1 z2. forwardPass net ins
            = Inr (softmax z2, [ins, map relu z0, map relu z1, softmax z2])
          \<and> length z0 = 16 \<and> length z1 = 8 \<and> length z2 = 3"
proof -
  from assms(1) obtain l0 l1 l2 where ls: "layers net = [l0, l1, l2]"
    and s0: "layer_shape 4 16 ''relu'' l0" and s1: "layer_shape 16 8 ''relu'' l1"
    and s2: "layer_shape 8 3 ''softmax'' l2"
    by (auto simp: created_shape_def split: list.splits)
  have a0: "activation l0 = ''relu''" and a1: "activation l1 = ''relu''"
    and a2: "activation l2 = ''softmax''"
    using s0 s1 s2 by (simp_all add: layer_shape_def)
  from matrixMultiply_shape [OF s0, of ins] assms(2)
  obtain z0 where z0: "matrixMultiply ins (weights l0) (biases l0) = Inr z0" "length z0 = 16"
    by auto
  from matrixMultiply_shape [OF s1, of "map relu z0"] z0(2)
  obtain z1 where z1: "matrixMultiply (map relu z0) (weights l1) (biases l1) = Inr z1" "length z1 = 8"
    by auto
  from matrixMultiply_shape [OF s2, of "map relu z1"] z1(2)
  obtain z2 where z2: "matrixMultiply (map relu z1) (weights l2) (biases l2) = Inr z2" "length z2 = 3"
    by auto
  have "forwardPass net ins = Inr (softmax z2, [ins, map relu z0, map relu z1, softmax z2])"
    by (simp add: forwardPass_def ls z0 z1 z2 a0 a1 a2 Let_def)
  with z0(2) z1(2) z2(2) show ?thesis by blast
qed

lemma example_network_shape: "created_shape example_network"
  by (simp add: created_shape_def example_network_def layer_shape_def list_all_iff)



lemma forwardPass_too_long:
  assumes "created_shape net" "4 < length ins"
  shows "forwardPass net ins = Inl TypeError"
proof -
  from assms(1) obtain l0 l1 l2 where ls: "layers net = [l0, l1, l2]"
    and s0: "layer_shape 4 16 ''relu'' l0"
    by (auto simp: created_shape_def split: list.splits)
  from s0 obtain w0 ws' where ws: "weights l0 = w0 # ws'"
    by (cases "weights l0") (auto simp: layer_shape_def)
  from s0 ws have "length w0 = 16" "length (weights l0) = 4"
    by (auto simp: layer_shape_def)
  then have "matrixMultiply ins (weights l0) (biases l0) = Inl TypeError"
    using assms(2) ws by (auto simp: matrixMultiply_def)
  then show ?thesis by (simp add: forwardPass_def ls)
qed

text \<open>Zero weights and zero biases give zero sums.\<close>

lemma foldl_keep: "foldl (\<lambda>sum i. sum) s is = s"
  by (induction "is" arbitrary: s) simp_all

lemma matrixMultiply_zero:
  assumes "0 < r" "0 < c" "length input \<le> r"
  shows "matrixMultiply input (replicate r (replicate c 0)) (replicate c 0) = Inr (replicate c 0)"
proof -
  obtain r' where r: "r = Suc r'" using assms(1) by (cases r) auto
  have "map (\<lambda>j. foldl (\<lambda>sum i. sum + input ! i * replicate r (replicate c 0) ! i ! j)
                   (replicate c (0::real) ! j) [0..<length input]) [0..<c]
        = map (\<lambda>j. 0) [0..<c]"
  proof (rule map_cong [OF refl])
    fix j assume "j \<in> set [0..<c]"
    then have j: "j < c" by simp
    have "foldl (\<lambda>sum i. sum + input ! i * replicate r (replicate c 0) ! i ! j) (0::real) [0..<length input]
          = foldl (\<lambda>sum i. sum + input ! i * (0::real)) 0 [0..<length input]"
      using assms(3) j by (intro foldl_cong) auto
    then show "foldl (\<lambda>sum i. sum + input ! i * replicate r (replicate c 0) ! i ! j)
                   (replicate c (0::real) ! j) [0..<length input] = 0"
      using j by (simp add: foldl_keep)
  qed
  also have "\<dots> = replicate c 0" by (simp add: map_replicate_const)
  finally have sums: "map (\<lambda>j. foldl (\<lambda>sum i. sum + input ! i * replicate r (replicate c 0) ! i ! j)
                   (replicate c (0::real) ! j) [0..<length input]) [0..<c] = replicate c 0" .
  have rows: "\<not> list_ex (\<lambda>row. length row < c)
                 (take (length input) (replicate r (replicate c (0::real))))"
    by (auto simp: list_ex_iff dest: in_set_takeD)
  have "replicate r (replicate c (0::real)) = replicate c 0 # replicate r' (replicate c 0)"
    by (simp add: r)
  then have "matrixMultiply input (replicate r (replicate c 0)) (replicate c 0)
      = (if replicate c (0::real) = [] then Inr []
         else if length (replicate r (replicate c (0::real))) < length input then Inl TypeError
         else if length (replicate c (0::real)) < length (replicate c (0::real))
                 \<or> list_ex (\<lambda>row. length row < length (replicate c (0::real)))
                      (take (length input) (replicate r (replicate c (0::real))))
              then Inl NotANumber
         else Inr (map (\<lambda>j. foldl (\<lambda>sum i. sum + input ! i * replicate r (replicate c 0) ! i ! j)
                   (replicate c (0::real) ! j) [0..<length input]) [0..<length (replicate c (0::real))]))"
    unfolding matrixMultiply_def by (simp only: list.case)
  then show ?thesis
    using assms rows sums by simp
qed


lemma softmax_zero3: "softmax [0, 0, 0] = [1/3, 1/3, 1/3]"
  by (simp add: softmax_def)


lemma matrixMultiply_zero_input:
  assumes "0 < r" "row \<noteq> []" "length bs = length row" "n \<le> r"
  shows "matrixMultiply (replicate n 0) (replicate r row) bs = Inr bs"
proof -
  obtain r' where r: "r = Suc r'" using assms(1) by (cases r) auto
  have "map (\<lambda>j. foldl (\<lambda>sum i. sum + replicate n (0::real) ! i * replicate r row ! i ! j)
                   (bs ! j) [0..<length (replicate n (0::real))]) [0..<length row]
        = map (\<lambda>j. bs ! j) [0..<length row]"
  proof (rule map_cong [OF refl])
    fix j
    have "foldl (\<lambda>sum i. sum + replicate n (0::real) ! i * replicate r row ! i ! j) (bs ! j) [0..<n]
          = foldl (\<lambda>sum i. sum) (bs ! j) [0..<n]"
      by (intro foldl_cong) auto
    then show "foldl (\<lambda>sum i. sum + replicate n (0::real) ! i * replicate r row ! i ! j)
                   (bs ! j) [0..<length (replicate n (0::real))] = bs ! j"
      by (simp add: foldl_keep)
  qed
  also have "\<dots> = bs" using assms(3) by (metis map_nth)
  finally have sums: "map (\<lambda>j. foldl (\<lambda>sum i. sum + replicate n (0::real) ! i * replicate r row ! i ! j)
                   (bs ! j) [0..<length (replicate n (0::real))]) [0..<length row] = bs" .
  have rows: "\<not> list_ex (\<lambda>x. length x < length row) (take n (replicate r row))"
    by (auto simp: list_ex_iff dest: in_set_takeD)
  have "replicate r row = row # replicate r' row"
    by (simp add: r)
  then have "matrixMultiply (replicate n 0) (replicate r row) bs
      = (if row = [] then Inr []
         else if length (replicate r row) < length (replicate n (0::real)) then Inl TypeError
         else if length bs < length row
                 \<or> list_ex (\<lambda>x. length x < length row)
                      (take (length (replicate n (0::real))) (replicate r row))
              then Inl NotANumber
         else Inr (map (\<lambda>j. foldl (\<lambda>sum i. sum + replicate n (0::real) ! i * replicate r row ! i ! j)
                   (bs ! j) [0..<length (replicate n (0::real))]) [0..<length row]))"
    unfolding matrixMultiply_def by (simp only: list.case)
  then show ?thesis
    using assms rows sums by simp
qed

lemma map_relu_zero: "map relu (replicate n 0) = replicate n 0"
  by (simp add: relu_def)

text \<open>The forward pass of the example network: whatever the input, the output is uniform.\<close>

lemma forwardPass_example:
  assumes "length ins \<le> 4"
  shows "forwardPass example_network ins
         = Inr ([1/3, 1/3, 1/3], [ins, replicate 16 0, replicate 8 0, [1/3, 1/3, 1/3]])"
proof -
  have m0: "matrixMultiply ins (replicate 4 (replicate 16 0)) (replicate 16 0) = Inr (replicate 16 0)"
    using assms by (intro matrixMultiply_zero) simp_all
  have m1: "matrixMultiply (replicate 16 0) (replicate 16 (replicate 8 0)) (replicate 8 0)
            = Inr (replicate 8 0)"
    by (intro matrixMultiply_zero) simp_all
  have m2: "matrixMultiply (replicate 8 0) (replicate 8 [0, 0, 1]) [0, 0, 0] = Inr [0, 0, 0]"
    by (intro matrixMultiply_zero_input) simp_all
  show ?thesis
    by (simp add: forwardPass_def example_network_def m0 m1 m2 relu_def Let_def softmax_zero3)
qed

subsection \<open>An input of the wrong length\<close>

text \<open>
  Claim C2 as stated fails: \<open>forwardPass\<close> and \<open>matrixMultiply\<close> never look at the length
  of the input. The loop over \<open>i\<close> runs to \<open>input.length\<close>, so a vector of three entries
  is multiplied with the first three rows and a result comes back without any error.
\<close>

theorem forwardPass_short_input_counterexample:
  "created_shape example_network \<and> length [1/2, 0, 1/2 :: real] \<noteq> 4
   \<and> forwardPass example_network [1/2, 0, 1/2]
       = Inr ([1/3, 1/3, 1/3], [[1/2, 0, 1/2], replicate 16 0, replicate 8 0, [1/3, 1/3, 1/3]])"
  using forwardPass_example [of "[1/2, 0, 1/2]"] example_network_shape by simp

text \<open>
  Claim C2, amended. On a network of the created shape, an input longer than 4 makes the
  forward pass throw a TypeError (it reads a row the first matrix does not have); an
  input shorter than 4 is accepted, and a 3-vector comes back.
\<close>

theorem forwardPass_length_mismatch:
  assumes "created_shape net"
  shows "(4 < length ins \<longrightarrow> forwardPass net ins = Inl TypeError)
       \<and> (length ins < 4 \<longrightarrow> (\<exists>output acts. forwardPass net ins = Inr (output, acts) \<and> length output = 3))"
proof (intro conjI impI)
  assume "4 < length ins"
  with assms show "forwardPass net ins = Inl TypeError" by (rule forwardPass_too_long)
next
  assume "length ins < 4"
  with forwardPass_created [OF assms, of ins]
  show "\<exists>output acts. forwardPass net ins = Inr (output, acts) \<and> length output = 3"
    by (auto simp: softmax_length)
qed

theorem forwardPass_length_mismatch_witness:
  "created_shape example_network
   \<and> 4 < length [1, 2, 3, 4, 5 :: real] \<and> forwardPass example_network [1, 2, 3, 4, 5] = Inl TypeError
   \<and> length [1/2, 0, 1/2 :: real] < 4
   \<and> (\<exists>output acts. forwardPass example_network [1/2, 0, 1/2] = Inr (output, acts) \<and> length output = 3)"
  using forwardPass_length_mismatch [OF example_network_shape, of "[1, 2, 3, 4, 5]"]
        forwardPass_length_mismatch [OF example_network_shape, of "[1/2, 0, 1/2]"]
        example_network_shape
  by simp

subsection \<open>The training buffer\<close>

lemma recordDecision_data:
  assumes "length (trainingData c) \<le> maxTrainingData c"
  shows "trainingData (recordDecision c b p w h a)
         = drop (Suc (length (trainingData c)) - maxTrainingData c)
                (trainingData c @ [decisionSample b p w h a])"
proof (cases "maxTrainingData c < Suc (length (trainingData c))")
  case True
  with assms have "Suc (length (trainingData c)) - maxTrainingData c = Suc 0" by arith
  moreover have "tl xs = drop (Suc 0) xs" for xs :: "sample list"
    by (simp add: drop_Suc)
  ultimately show ?thesis
    using True by (simp add: recordDecision_def Let_def del: drop_append tl_append2)
next
  case False
  then show ?thesis by (simp add: recordDecision_def Let_def)
qed

lemma recordDecision_max: "maxTrainingData (recordDecision c b p w h a) = maxTrainingData c"
  by (simp add: recordDecision_def Let_def)

lemma recordDecision_length:
  assumes "length (trainingData c) \<le> maxTrainingData c"
  shows "length (trainingData (recordDecision c b p w h a)) \<le> maxTrainingData c"
  using assms by (auto simp: recordDecision_def Let_def)

lemma recordAll_data:
  assumes "length (trainingData c) \<le> maxTrainingData c"
  shows "trainingData (recordAll c ds)
         = drop (length (trainingData c) + length ds - maxTrainingData c)
                (trainingData c @ map (\<lambda>(b, p, w, h, a). decisionSample b p w h a) ds)"
  using assms
proof (induction c ds rule: recordAll.induct)
  case (1 c)
  then show ?case by simp
next
  case (2 c b p w h a ds)
  let ?c = "recordDecision c b p w h a"
  let ?s = "decisionSample b p w h a"
  let ?rest = "map (\<lambda>(b, p, w, h, a). decisionSample b p w h a) ds"
  let ?k = "Suc (length (trainingData c)) - maxTrainingData c"
  have len: "length (trainingData ?c) \<le> maxTrainingData ?c"
    using 2(2) by (simp add: recordDecision_max recordDecision_length)
  have td: "trainingData ?c = drop ?k (trainingData c @ [?s])"
    using 2(2) by (rule recordDecision_data)
  have k: "?k - length (trainingData c @ [?s]) = 0" by simp
  have "trainingData (recordAll ?c ds)
        = drop (length (trainingData ?c) + length ds - maxTrainingData c) (trainingData ?c @ ?rest)"
    using 2(1) [OF len] by (simp add: recordDecision_max)
  also have "trainingData ?c @ ?rest = drop ?k ((trainingData c @ [?s]) @ ?rest)"
    unfolding td by (simp only: drop_append [of ?k] k drop_0)
  also have "drop (length (trainingData ?c) + length ds - maxTrainingData c) \<dots>
             = drop (length (trainingData ?c) + length ds - maxTrainingData c + ?k)
                    ((trainingData c @ [?s]) @ ?rest)"
    by (simp only: drop_drop)
  also have "length (trainingData ?c) + length ds - maxTrainingData c + ?k
             = length (trainingData c) + length ((b, p, w, h, a) # ds) - maxTrainingData c"
    using 2(2) unfolding td by simp
  finally show ?case by simp
qed

text \<open>
  Claim C8. With capacity 200: a call of \<open>recordDecision\<close> on a buffer of at most 200
  samples leaves at most 200; from the empty buffer every run of calls leaves at most
  200, and a run of 250 calls leaves the samples of the last 200 calls, in the order of
  the calls.
\<close>

theorem recordDecision_bounded_fifo:
  assumes "maxTrainingData c = 200"
  shows "(length (trainingData c) \<le> 200 \<longrightarrow>
            length (trainingData (recordDecision c b p w h a)) \<le> 200)
       \<and> (trainingData c = [] \<longrightarrow>
            length (trainingData (recordAll c ds)) \<le> 200
          \<and> (length ds = 250 \<longrightarrow>
               trainingData (recordAll c ds)
               = drop 50 (map (\<lambda>(b, p, w, h, a). decisionSample b p w h a) ds)))"
proof (intro conjI impI)
  assume "length (trainingData c) \<le> 200"
  then show "length (trainingData (recordDecision c b p w h a)) \<le> 200"
    using recordDecision_length [of c b p w h a] assms by simp
next
  assume e: "trainingData c = []"
  then have "trainingData (recordAll c ds)
             = drop (length ds - 200) (map (\<lambda>(b, p, w, h, a). decisionSample b p w h a) ds)"
    using recordAll_data [of c ds] assms by simp
  then show "length (trainingData (recordAll c ds)) \<le> 200" by simp
next
  assume e: "trainingData c = []" and l: "length ds = 250"
  then show "trainingData (recordAll c ds)
             = drop 50 (map (\<lambda>(b, p, w, h, a). decisionSample b p w h a) ds)"
    using recordAll_data [of c ds] assms by simp
qed

theorem recordDecision_bounded_fifo_witness:
  "maxTrainingData (new_AIController example_network) = 200
   \<and> length (trainingData (new_AIController example_network)) \<le> 200
   \<and> length (trainingData (recordDecision (new_AIController example_network)
                example_ball example_paddle 800 600 1)) \<le> 200
   \<and> trainingData (new_AIController example_network) = []
   \<and> length (map (\<lambda>i. (example_ball\<lparr>ball_y := real i\<rparr>, example_paddle, 800, 600, 1)) [0..<250]) = 250
   \<and> trainingData (recordAll (new_AIController example_network)
         (map (\<lambda>i. (example_ball\<lparr>ball_y := real i\<rparr>, example_paddle, 800, 600, 1)) [0..<250]))
       = map (\<lambda>i. decisionSample (example_ball\<lparr>ball_y := real i\<rparr>) example_paddle 800 600 1) [50..<250]"
proof -
  let ?c = "new_AIController example_network"
  let ?ds = "map (\<lambda>i. (example_ball\<lparr>ball_y := real i\<rparr>, example_paddle, 800::real, 600::real, 1::int)) [0..<250]"
  have m: "maxTrainingData ?c = 200" and e: "trainingData ?c = []"
    by (simp_all add: new_AIController_def)
  from recordDecision_bounded_fifo [OF m, of example_ball example_paddle 800 600 1 ?ds]
  show ?thesis using m e by (simp add: drop_map o_def)
qed

subsection \<open>Training before enough samples\<close>

text \<open>
  Claim C9. With fewer than 20 samples in the buffer, \<open>reward\<close> and \<open>punish\<close> return
  normally and the controller, with every weight and bias of its network, is unchanged.
\<close>

theorem reward_punish_underrun:
  assumes "length (trainingData c) < 20"
  shows "reward c = Inr c \<and> punish c = Inr c"
  using assms by (simp add: reward_def punish_def)

theorem reward_punish_underrun_witness:
  "length (trainingData (recordAll (new_AIController example_network)
      (replicate 19 (example_ball, example_paddle, 800, 600, 1)))) < 20
   \<and> reward (recordAll (new_AIController example_network)
        (replicate 19 (example_ball, example_paddle, 800, 600, 1)))
      = Inr (recordAll (new_AIController example_network)
        (replicate 19 (example_ball, example_paddle, 800, 600, 1)))
   \<and> punish (recordAll (new_AIController example_network)
        (replicate 19 (example_ball, example_paddle, 800, 600, 1)))
      = Inr (recordAll (new_AIController example_network)
        (replicate 19 (example_ball, example_paddle, 800, 600, 1)))"
proof -
  let ?c = "recordAll (new_AIController example_network)
      (replicate 19 (example_ball, example_paddle, 800, 600, 1))"
  have "trainingData ?c = drop (19 - 200)
     (map (\<lambda>(b, p, w, h, a). decisionSample b p w h a) (replicate 19 (example_ball, example_paddle, 800, 600, 1)))"
    using recordAll_data [of "new_AIController example_network" "replicate 19 (example_ball, example_paddle, 800, 600, 1)"]
    by (simp add: new_AIController_def)
  then have l: "length (trainingData ?c) < 20" by simp
  from reward_punish_underrun [OF l] l show ?thesis by simp
qed

section \<open>Properties of the decision\<close>

subsection \<open>The two forward passes agree on finite numbers\<close>

text \<open>
  Where \<open>normalizeInputs\<close>, \<open>matrixMultiply\<close>, \<open>softmax\<close> and \<open>forwardPass\<close> return finite
  numbers, their counterparts on \<open>jsnum\<close> return the same numbers.
\<close>

lemma normalizeInputs_js_Num:
  "normalizeInputs b p canvasWidth canvasHeight = Inr ins
   \<Longrightarrow> normalizeInputs_js b p canvasWidth canvasHeight = map Num ins"
  by (auto simp: normalizeInputs_def normalizeInputs_js_def js_div_def split: if_splits)











subsection \<open>The forward pass of the decision does not throw\<close>




subsection \<open>The loop of the predictor\<close>




subsection \<open>The decision\<close>






section \<open>Properties of the physics engine\<close>

lemma divide_v_returns:
  "divide_v u s = Inr (if s = 0 then Vector2D 0 0 else Vector2D (vec_x u / s) (vec_y u / s))"
  by (simp add: divide_v_def js_div_def)

lemma normalize_v_returns:
  "normalize_v u = Inr (if magnitude u = 0 then Vector2D 0 0
                        else Vector2D (vec_x u / magnitude u) (vec_y u / magnitude u))"
  by (simp add: normalize_v_def divide_v_returns Let_def)










lemma resolveCircleRect_skips:
  assumes "contactNormal ball r = Inr n" "dot_v (subtract_v (velocity ball) rectVel) n > 0"
  shows "resolveCircleRect ball r rectVel = Inr (ball, None)"
  using assms by (simp add: resolveCircleRect_def Let_def)



lemma new_Ball_fields:
  "position (new_Ball px py) = Vector2D px py" "velocity (new_Ball px py) = Vector2D 0 0"
  "restitution (new_Ball px py) = 1" "radius (new_Ball px py) = 8"
  "angularVelocity (new_Ball px py) = 0" "\<not> isStatic (new_Ball px py)"
  "mass (new_Ball px py) = 1" "momentOfInertia (new_Ball px py) = 10"
  by (simp_all add: new_Ball_def new_PhysicsBody_def PhysicsBody.defs elasticity_def)

subsection \<open>Restitution\<close>





subsection \<open>Bodies that separate\<close>

text \<open>
  Claim C6 as stated fails at a relative normal velocity of exactly 0: the test of the
  code is \<open>velAlongNormal > 0\<close>. A ball that slides along the face of the paddle is
  resolved: its impulse is zero, but its position and its angular velocity change.
\<close>

theorem resolveCircleRect_tangent_counterexample:
  "contactNormal ((new_Ball 31 310)\<lparr>velocity := Vector2D 0 3\<rparr>) paddle_rect = Inr (Vector2D 1 0)
   \<and> dot_v (subtract_v (velocity ((new_Ball 31 310)\<lparr>velocity := Vector2D 0 3\<rparr>)) (Vector2D 0 0))
         (Vector2D 1 0) = 0
   \<and> resolveCircleRect ((new_Ball 31 310)\<lparr>velocity := Vector2D 0 3\<rparr>) paddle_rect (Vector2D 0 0)
       = Inr ((new_Ball 31 310)\<lparr>velocity := Vector2D 0 3, angularVelocity := 0.1,
                                 position := Vector2D 38 310\<rparr>,
              Some \<lparr>c_normal = Vector2D 1 0, c_impulse = Vector2D 0 0,
                    c_point = Vector2D 30 310, c_velocity = Vector2D 0 3\<rparr>)"
proof -
  let ?b = "(new_Ball 31 310)\<lparr>velocity := Vector2D 0 3\<rparr>"
  have n: "contactNormal ?b paddle_rect = Inr (Vector2D 1 0)"
    by (simp add: contactNormal_def closestPoint_def clamp_def paddle_rect_def new_Ball_fields
          normalize_v_returns magnitude_def)
  have "resolveCircleRect ?b paddle_rect (Vector2D 0 0)
       = Inr ((new_Ball 31 310)\<lparr>velocity := Vector2D 0 3, angularVelocity := 0.1,
                                 position := Vector2D 38 310\<rparr>,
              Some \<lparr>c_normal = Vector2D 1 0, c_impulse = Vector2D 0 0,
                    c_point = Vector2D 30 310, c_velocity = Vector2D 0 3\<rparr>)"
    unfolding resolveCircleRect_def n
    by (simp add: Let_def new_Ball_fields dot_v_def subtract_v_def
          add_v_def multiply_v_def magnitude_def closestPoint_def clamp_def paddle_rect_def)
  with n show ?thesis by (simp add: dot_v_def subtract_v_def)
qed

lemma resolveCircleCircle_skips:
  assumes "normalize_v (subtract_v (position c1) (position c2)) = Inr n"
    "dot_v (subtract_v (velocity c1) (velocity c2)) n > 0"
  shows "resolveCircleCircle c1 c2 = Inr (c1, c2)"
  using assms by (simp add: resolveCircleCircle_def Let_def)

text \<open>
  Claim C6, amended. When the relative velocity along the contact normal is greater than
  0, \<open>resolveCircleRect\<close> and \<open>resolveCircleCircle\<close> return early: no impulse, and every
  field of both bodies is as it was.
\<close>

theorem resolution_skipped_when_separating:
  "(\<forall>n. contactNormal ball r = Inr n \<and> dot_v (subtract_v (velocity ball) rectVel) n > 0
        \<longrightarrow> resolveCircleRect ball r rectVel = Inr (ball, None))
   \<and> (\<forall>n. normalize_v (subtract_v (position c1) (position c2)) = Inr n
          \<and> dot_v (subtract_v (velocity c1) (velocity c2)) n > 0
        \<longrightarrow> resolveCircleCircle c1 c2 = Inr (c1, c2))"
  using resolveCircleRect_skips [of ball r _ rectVel] resolveCircleCircle_skips [of c1 c2]
  by blast

theorem resolution_skipped_when_separating_witness:
  "contactNormal ((new_Ball 31 300)\<lparr>velocity := Vector2D 2 0\<rparr>) paddle_rect = Inr (Vector2D 1 0)
   \<and> dot_v (subtract_v (velocity ((new_Ball 31 300)\<lparr>velocity := Vector2D 2 0\<rparr>)) (Vector2D 0 0))
         (Vector2D 1 0) > 0
   \<and> resolveCircleRect ((new_Ball 31 300)\<lparr>velocity := Vector2D 2 0\<rparr>) paddle_rect (Vector2D 0 0)
       = Inr ((new_Ball 31 300)\<lparr>velocity := Vector2D 2 0\<rparr>, None)
   \<and> normalize_v (subtract_v (position ((new_Ball 1 0)\<lparr>velocity := Vector2D 1 0\<rparr>)) (position (new_Ball 0 0)))
       = Inr (Vector2D 1 0)
   \<and> dot_v (subtract_v (velocity ((new_Ball 1 0)\<lparr>velocity := Vector2D 1 0\<rparr>)) (velocity (new_Ball 0 0)))
         (Vector2D 1 0) > 0
   \<and> resolveCircleCircle ((new_Ball 1 0)\<lparr>velocity := Vector2D 1 0\<rparr>) (new_Ball 0 0)
       = Inr ((new_Ball 1 0)\<lparr>velocity := Vector2D 1 0\<rparr>, new_Ball 0 0)"
proof -
  let ?b = "(new_Ball 31 300)\<lparr>velocity := Vector2D 2 0\<rparr>"
  let ?c1 = "(new_Ball 1 0)\<lparr>velocity := Vector2D 1 0\<rparr>"
  let ?c2 = "new_Ball 0 0"
  have n: "contactNormal ?b paddle_rect = Inr (Vector2D 1 0)"
    by (simp add: contactNormal_def closestPoint_def clamp_def paddle_rect_def new_Ball_fields
          normalize_v_returns magnitude_def)
  have v: "dot_v (subtract_v (velocity ?b) (Vector2D 0 0)) (Vector2D 1 0) > 0"
    by (simp add: dot_v_def subtract_v_def)
  have m: "normalize_v (subtract_v (position ?c1) (position ?c2)) = Inr (Vector2D 1 0)"
    by (simp add: new_Ball_fields normalize_v_returns magnitude_def subtract_v_def)
  have w: "dot_v (subtract_v (velocity ?c1) (velocity ?c2)) (Vector2D 1 0) > 0"
    by (simp add: dot_v_def subtract_v_def new_Ball_fields)
  from resolution_skipped_when_separating [of ?b paddle_rect "Vector2D 0 0" ?c1 ?c2] n v m w
  show ?thesis by blast
qed

subsection \<open>The normal of length zero\<close>

text \<open>
  Claim C7. When the centre of the ball is the closest point of the rectangle, the
  contact normal is (1, 0); \<open>resolveCircleRect\<close> returns without a division by zero (for
  every ball, rectangle and velocity), and the impulse it reports is computed from the
  normal (1, 0).
\<close>

theorem resolveCircleRect_degenerate_normal:
  assumes "closestPoint ball r = position ball"
  shows "contactNormal ball r = Inr (Vector2D 1 0)
       \<and> (\<exists>out. resolveCircleRect ball r rectVel = Inr out)
       \<and> (\<forall>ball' c. resolveCircleRect ball r rectVel = Inr (ball', Some c) \<longrightarrow>
             c_normal c = Vector2D 1 0
           \<and> c_impulse c = multiply_v (Vector2D 1 0)
                 (- (1 + restitution ball) * dot_v (subtract_v (velocity ball) rectVel) (Vector2D 1 0)))"
proof -
  have n: "contactNormal ball r = Inr (Vector2D 1 0)"
    using assms by (simp add: contactNormal_def normalize_v_returns magnitude_def)
  then show ?thesis
    by (auto simp: resolveCircleRect_def Let_def)
qed

theorem resolveCircleRect_degenerate_normal_witness:
  "closestPoint (new_Ball 25 300) paddle_rect = position (new_Ball 25 300)
   \<and> contactNormal (new_Ball 25 300) paddle_rect = Inr (Vector2D 1 0)
   \<and> resolveCircleRect (new_Ball 25 300) paddle_rect (Vector2D 0 0)
       = Inr ((new_Ball 25 300)\<lparr>position := Vector2D 32 300\<rparr>,
              Some \<lparr>c_normal = Vector2D 1 0, c_impulse = Vector2D 0 0,
                    c_point = Vector2D 25 300, c_velocity = Vector2D 0 0\<rparr>)"
proof -
  let ?b = "new_Ball 25 300"
  have c: "closestPoint ?b paddle_rect = position ?b"
    by (simp add: closestPoint_def clamp_def paddle_rect_def new_Ball_fields)
  from resolveCircleRect_degenerate_normal [OF c, of "Vector2D 0 0"]
  have n: "contactNormal ?b paddle_rect = Inr (Vector2D 1 0)" by blast
  have "resolveCircleRect ?b paddle_rect (Vector2D 0 0)
       = Inr (?b\<lparr>position := Vector2D 32 300\<rparr>,
              Some \<lparr>c_normal = Vector2D 1 0, c_impulse = Vector2D 0 0,
                    c_point = Vector2D 25 300, c_velocity = Vector2D 0 0\<rparr>)"
    unfolding resolveCircleRect_def n
    by (simp add: Let_def new_Ball_fields dot_v_def subtract_v_def
          add_v_def multiply_v_def magnitude_def closestPoint_def clamp_def paddle_rect_def)
  with c n show ?thesis by simp
qed

section \<open>Properties of the weight update\<close>

text \<open>The three layer updates of one training step on the example network, for any rate.\<close>

lemma r8: "replicate 8 x = [x,x,x,x,x,x,x,x]"
  by (simp add: eval_nat_numeral)

lemma u3: "[0..<3] = [0,1,2]" by (simp add: eval_nat_numeral upt_rec)
lemma u8: "[0..<8] = [0,1,2,3,4,5,6,7]" by (simp add: upt_rec)

lemma layer2_step:
  "updateLayer lr (Suc (Suc 0))
     \<lparr>weights = replicate 8 [0, 0, 1], biases = [0, 0, 0], activation = ''softmax''\<rparr>
     (replicate 8 0) [a, b, c]
   = Inr (\<lparr>weights = replicate 8 [0, 0, 1], biases = [lr * a, lr * b, lr * c],
           activation = ''softmax''\<rparr>, replicate 8 c)"
  by (simp add: updateLayer_def Let_def r8 u3 u8)

lemma r16: "replicate 16 x = [x,x,x,x,x,x,x,x,x,x,x,x,x,x,x,x]"
  by (simp add: eval_nat_numeral)
lemma r4: "replicate 4 x = [x,x,x,x]"
  by (simp add: eval_nat_numeral)
lemma u16: "[0..<16] = [0,1,2,3,4,5,6,7,8,9,10,11,12,13,14,15]" by (simp add: upt_rec)
lemma u4: "[0..<4] = [0,1,2,3]" by (simp add: upt_rec)

lemma layer1_step:
  "updateLayer lr (Suc 0)
     \<lparr>weights = replicate 16 (replicate 8 0), biases = replicate 8 0, activation = ''relu''\<rparr>
     (replicate 16 0) (replicate 8 e)
   = Inr (\<lparr>weights = replicate 16 (replicate 8 0), biases = replicate 8 (lr * e),
           activation = ''relu''\<rparr>, replicate 16 0)"
  by (simp add: updateLayer_def Let_def r8 r16 u8 u16)

lemma layer0_step:
  "updateLayer lr 0
     \<lparr>weights = replicate 4 (replicate 16 0), biases = replicate 16 0, activation = ''relu''\<rparr>
     [p0, p1, p2, p3] (replicate 16 0)
   = Inr (\<lparr>weights = replicate 4 (replicate 16 0), biases = replicate 16 0,
           activation = ''relu''\<rparr>, replicate 4 0)"
  by (simp add: updateLayer_def Let_def r4 r16 u4 u16)

lemma backprop_example:
  "backprop lr [[p0, p1, p2, p3], replicate 16 0, replicate 8 0, out] (Suc (Suc (Suc 0)))
     (layers example_network) [a, b, c]
   = Inr [\<lparr>weights = replicate 4 (replicate 16 0), biases = replicate 16 0, activation = ''relu''\<rparr>,
          \<lparr>weights = replicate 16 (replicate 8 0), biases = replicate 8 (lr * c), activation = ''relu''\<rparr>,
          \<lparr>weights = replicate 8 [0, 0, 1], biases = [lr * a, lr * b, lr * c],
            activation = ''softmax''\<rparr>]"
  by (simp add: example_network_def layer2_step layer1_step layer0_step)

text \<open>
  Claim C1 does not hold of the code. \<open>updateWeights\<close> applies the gate when the layer it
  is updating is rectified-linear, but the error it gates belongs to the units of the
  layer before. At the last layer, which is softmax, the error sent back to the second
  hidden layer is therefore not gated. On the example network every unit of that layer
  has activation 0 in the forward pass; training on one sample with action \<open>[0, 0, 1]\<close>,
  reward factor 1 and learning rate 0.01 still sends the error 2/3 through each of them,
  and their biases move from 0 to 1/150.
\<close>

theorem trainSample_ungated_hidden_layer:
  "forwardPass example_network [1/2, 0, 1/2, 1/2]
     = Inr ([1/3, 1/3, 1/3], [[1/2, 0, 1/2, 1/2], replicate 16 0, replicate 8 0, [1/3, 1/3, 1/3]])
   \<and> trainSample (1/100) 1 example_network \<lparr>inputs = Inr [1/2, 0, 1/2, 1/2], action = [Some 0, Some 0, Some 1]\<rparr>
     = Inr \<lparr>layers =
         [\<lparr>weights = replicate 4 (replicate 16 0), biases = replicate 16 0, activation = ''relu''\<rparr>,
          \<lparr>weights = replicate 16 (replicate 8 0), biases = replicate 8 (1/150), activation = ''relu''\<rparr>,
          \<lparr>weights = replicate 8 [0, 0, 1], biases = [- 1/300, - 1/300, 1/150],
            activation = ''softmax''\<rparr>]\<rparr>"
proof -
  have fp: "forwardPass example_network [1/2, 0, 1/2, 1/2]
     = Inr ([1/3, 1/3, 1/3], [[1/2, 0, 1/2, 1/2], replicate 16 0, replicate 8 0, [1/3, 1/3, 1/3]])"
    by (rule forwardPass_example) simp
  have len: "length (layers example_network) = 3" by (simp add: example_network_def)
  have three: "(3::nat) = Suc (Suc (Suc 0))" by simp
  have "updateWeights example_network (1/100)
          [[1/2, 0, 1/2, 1/2], replicate 16 0, replicate 8 0, [1/3, 1/3, 1/3]] [- 1/3, - 1/3, 2/3]
        = Inr \<lparr>layers =
         [\<lparr>weights = replicate 4 (replicate 16 0), biases = replicate 16 0, activation = ''relu''\<rparr>,
          \<lparr>weights = replicate 16 (replicate 8 0), biases = replicate 8 (1/150), activation = ''relu''\<rparr>,
          \<lparr>weights = replicate 8 [0, 0, 1], biases = [- 1/300, - 1/300, 1/150],
            activation = ''softmax''\<rparr>]\<rparr>"
    using backprop_example [of "1/100" "1/2" 0 "1/2" "1/2" "[1/3, 1/3, 1/3]" "- 1/3" "- 1/3" "2/3"]
    by (simp add: updateWeights_def len three)
  then show ?thesis
    unfolding trainSample_def by (simp add: fp u3)
qed

end
